theory Spec2Isabelle
  imports Main "HOL-Library.Word"
begin

section \<open>Level policy (Logger.h, Logger.cpp)\<close>

text \<open>
  \<^verbatim>\<open>enum class LogLevel : int { DEBUG = 0, INFO = 1, WARNING = 2 }\<close> is what Logger.h
  declares. Logger.cpp names three further enumerators, \<^verbatim>\<open>TRACE\<close>, \<^verbatim>\<open>ERROR\<close> and
  \<^verbatim>\<open>FATAL\<close>, in \<^verbatim>\<open>logLevelToString\<close> and \<^verbatim>\<open>stringToLogLevel\<close>; the datatype has all six
  names the code uses.
\<close>

datatype LogLevel = TRACE | DEBUG | INFO | WARNING | ERROR | FATAL

text \<open>
  \<^verbatim>\<open>static_cast<int>(level)\<close>. The header fixes the values of \<^verbatim>\<open>DEBUG\<close>, \<^verbatim>\<open>INFO\<close> and
  \<^verbatim>\<open>WARNING\<close>; the values of the enumerators it does not declare are the parameter
  \<open>ext\<close>.
\<close>

definition levelInt :: "(LogLevel \<Rightarrow> int) \<Rightarrow> LogLevel \<Rightarrow> int" where
  "levelInt ext level =
     (case level of
        DEBUG \<Rightarrow> 0
      | INFO \<Rightarrow> 1
      | WARNING \<Rightarrow> 2
      | _ \<Rightarrow> ext level)"

text \<open>
  \<^verbatim>\<open>logLevelToString\<close>: the switch of Logger.cpp. Its \<^verbatim>\<open>default: return "UNKNOWN"\<close> is
  taken only by a value that is none of the enumerators, which the datatype does not have.
\<close>

definition logLevelToString :: "LogLevel \<Rightarrow> string" where
  "logLevelToString level =
     (case level of
        TRACE \<Rightarrow> ''TRACE''
      | DEBUG \<Rightarrow> ''DEBUG''
      | INFO \<Rightarrow> ''INFO''
      | WARNING \<Rightarrow> ''WARNING''
      | ERROR \<Rightarrow> ''ERROR''
      | FATAL \<Rightarrow> ''FATAL'')"

text \<open>
  \<^verbatim>\<open>::toupper\<close> of the C locale on one byte: the letters \<^verbatim>\<open>a\<close> (97) to \<^verbatim>\<open>z\<close> (122) move
  down by 32, every other byte stays.
\<close>

definition toupper :: "char \<Rightarrow> char" where
  "toupper c =
     (let n = (of_char c :: nat)
      in if 97 \<le> n \<and> n \<le> 122 then char_of (n - 32) else c)"

text \<open>
  \<^verbatim>\<open>stringToLogLevel\<close>: \<^verbatim>\<open>std::transform(..., ::toupper)\<close> over a copy, then the chain of
  comparisons in the order of the source, then the fallback \<^verbatim>\<open>INFO\<close>.
\<close>

definition stringToLogLevel :: "string \<Rightarrow> LogLevel" where
  "stringToLogLevel levelStr =
     (let upper = map toupper levelStr
      in if upper = ''TRACE'' then TRACE
         else if upper = ''DEBUG'' then DEBUG
         else if upper = ''INFO'' then INFO
         else if upper = ''WARNING'' then WARNING
         else if upper = ''ERROR'' then ERROR
         else if upper = ''FATAL'' then FATAL
         else INFO)"

section \<open>The bounded queue (Logger.h, \<^verbatim>\<open>AsyncQueue<T>\<close>)\<close>

text \<open>
  The state of the queue is its three data members; the mutex and the condition variable
  order the calls of several threads and hold no data, so each member function is one
  atomic step on the record (\<^verbatim>\<open>notify_one\<close> and \<^verbatim>\<open>notify_all\<close> change nothing in it).
  \<^verbatim>\<open>size_t\<close> is \<open>nat\<close>: the code only compares sizes. A data member \<^verbatim>\<open>name_\<close> of the
  source is the field \<open>name_m\<close>, here and below: an identifier cannot end in an
  underscore.
\<close>

record 'a AsyncQueue =
  queue_m :: "'a list"
  shutdown_m :: bool
  max_size_m :: nat

definition AsyncQueue_new :: "nat \<Rightarrow> 'a AsyncQueue" where
  "AsyncQueue_new max_size = \<lparr>queue_m = [], shutdown_m = False, max_size_m = max_size\<rparr>"

definition push :: "'a AsyncQueue \<Rightarrow> 'a \<Rightarrow> bool \<times> 'a AsyncQueue" where
  "push q item =
     (if length (queue_m q) \<ge> max_size_m q then (False, q)
      else (True, q\<lparr>queue_m := queue_m q @ [item]\<rparr>))"

text \<open>
  \<^verbatim>\<open>pop(T& item)\<close>. The wait on the condition variable returns once the queue is
  non-empty or shut down; with neither, and no other thread to change that, the call
  never returns: \<open>None\<close>. Otherwise the result is the returned flag, the value of the
  reference parameter \<^verbatim>\<open>item\<close> after the call, and the queue. \<open>hd\<close> and \<open>tl\<close> are
  reached only with a non-empty queue.
\<close>

definition pop :: "'a AsyncQueue \<Rightarrow> 'a \<Rightarrow> (bool \<times> 'a \<times> 'a AsyncQueue) option" where
  "pop q item =
     (if \<not> (queue_m q \<noteq> [] \<or> shutdown_m q) then None
      else if shutdown_m q \<and> queue_m q = [] then Some (False, item, q)
      else Some (True, hd (queue_m q), q\<lparr>queue_m := tl (queue_m q)\<rparr>))"

definition shutdown :: "'a AsyncQueue \<Rightarrow> 'a AsyncQueue" where
  "shutdown q = q\<lparr>shutdown_m := True\<rparr>"

text \<open>
  A producer that pushes the items of a list one after the other, keeping each call's
  result, and a consumer that calls \<^verbatim>\<open>pop\<close> a given number of times on the same variable,
  keeping each call's flag and the value the variable then holds.
\<close>

fun push_all :: "'a AsyncQueue \<Rightarrow> 'a list \<Rightarrow> bool list \<times> 'a AsyncQueue" where
  "push_all q [] = ([], q)"
| "push_all q (x # xs) =
     (case push q x of (r, q') \<Rightarrow>
        (case push_all q' xs of (rs, q'') \<Rightarrow> (r # rs, q'')))"

fun pop_n :: "nat \<Rightarrow> 'a AsyncQueue \<Rightarrow> 'a \<Rightarrow> ((bool \<times> 'a) list \<times> 'a AsyncQueue) option" where
  "pop_n 0 q item = Some ([], q)"
| "pop_n (Suc n) q item =
     (case pop q item of
        None \<Rightarrow> None
      | Some (r, item', q') \<Rightarrow>
          (case pop_n n q' item' of
             None \<Rightarrow> None
           | Some (rs, q'') \<Rightarrow> Some ((r, item') # rs, q'')))"

section \<open>Output backends (Logger.cpp)\<close>

text \<open>
  \<^verbatim>\<open>FileOutput\<close>: the stream's \<^verbatim>\<open>is_open()\<close> and \<^verbatim>\<open>good()\<close> flags and the lines this
  object has appended to the file. \<open>opened\<close> says whether \<^verbatim>\<open>file_.open\<close> succeeded (a
  failed open sets the fail bit); \<open>wr_ok\<close> says whether the operating system accepts the
  write and the flush. A stream that is not good ignores the insertion.
\<close>

record FileOutput =
  filename_m :: string
  file_is_open :: bool
  file_good :: bool
  file_lines :: "string list"

definition FileOutput_new :: "bool \<Rightarrow> string \<Rightarrow> FileOutput" where
  "FileOutput_new opened filename =
     \<lparr>filename_m = filename, file_is_open = opened, file_good = opened, file_lines = []\<rparr>"

definition FileOutput_writeLog :: "bool \<Rightarrow> FileOutput \<Rightarrow> string \<Rightarrow> bool \<times> FileOutput" where
  "FileOutput_writeLog wr_ok f formattedMessage =
     (if \<not> file_is_open f then (False, f)
      else let f' = (if \<not> file_good f then f
                     else if wr_ok then f\<lparr>file_lines := file_lines f @ [formattedMessage]\<rparr>
                     else f\<lparr>file_good := False\<rparr>)
           in (file_good f', f'))"

definition FileOutput_isValid :: "FileOutput \<Rightarrow> bool" where
  "FileOutput_isValid f = (file_is_open f \<and> file_good f)"

text \<open>
  \<^verbatim>\<open>SocketOutput\<close>: its data members and \<open>sends\<close>, the buffers handed to \<^verbatim>\<open>send()\<close> so
  far, one entry per call. \<open>sendres k\<close> is what the \<open>k\<close>-th call of \<^verbatim>\<open>send\<close> on this
  socket returns (a \<^verbatim>\<open>ssize_t\<close>: the number of bytes taken, or a negative value).
\<close>

record SocketOutput =
  socket_fd_m :: int
  host_m :: string
  port_m :: int
  connected_m :: bool
  sends :: "string list"

definition SocketOutput_writeLog ::
  "(nat \<Rightarrow> int) \<Rightarrow> SocketOutput \<Rightarrow> string \<Rightarrow> bool \<times> SocketOutput" where
  "SocketOutput_writeLog sendres s formattedMessage =
     (if \<not> connected_m s \<or> socket_fd_m s < 0 then (False, s)
      else let message = formattedMessage @ [CHR 0x0A];
               sent = sendres (length (sends s));
               s' = s\<lparr>sends := sends s @ [message]\<rparr>
           in if sent < 0 then (False, s'\<lparr>connected_m := False\<rparr>)
              else (sent = int (length message), s'))"

definition SocketOutput_isValid :: "SocketOutput \<Rightarrow> bool" where
  "SocketOutput_isValid s = (connected_m s \<and> socket_fd_m s \<ge> 0)"

text \<open>
  \<^verbatim>\<open>LogOutput\<close> is the abstract interface; its two implementations with code in
  Logger.cpp are the variants, and the virtual calls dispatch on them. \<open>syscalls\<close>
  gathers what the operating system answers.
\<close>

datatype LogOutput = File FileOutput | Socket SocketOutput

record syscalls =
  wr_ok :: bool
  sendres :: "nat \<Rightarrow> int"

fun writeLog :: "syscalls \<Rightarrow> LogOutput \<Rightarrow> string \<Rightarrow> bool \<times> LogOutput" where
  "writeLog env (File f) formattedMessage =
     (case FileOutput_writeLog (wr_ok env) f formattedMessage of (r, f') \<Rightarrow> (r, File f'))"
| "writeLog env (Socket s) formattedMessage =
     (case SocketOutput_writeLog (sendres env) s formattedMessage of (r, s') \<Rightarrow> (r, Socket s'))"

fun isValid :: "LogOutput \<Rightarrow> bool" where
  "isValid (File f) = FileOutput_isValid f"
| "isValid (Socket s) = SocketOutput_isValid s"

section \<open>The logger (Logger.h, Logger.cpp)\<close>

datatype LoggingError =
    SUCCESS
  | FILE_OPEN_FAILED
  | FILE_WRITE_FAILED
  | SOCKET_CONNECTION_FAILED
  | SOCKET_WRITE_FAILED
  | CONFIG_PARSE_ERROR
  | QUEUE_OVERFLOW
  | ROTATION_FAILED

record LoggerConfig =
  defaultLevel :: LogLevel
  enableAsync :: bool
  asyncQueueSize :: nat
  maxFileSizeMB :: nat
  maxFiles :: nat
  enableRotation :: bool
  compressOldLogs :: bool
  timestampFormat :: string
  reconnectIntervalMs :: int
  maxReconnectAttempts :: int

text \<open>The default member initialisers of \<^verbatim>\<open>struct LoggerConfig\<close>.\<close>

definition LoggerConfig_default :: LoggerConfig where
  "LoggerConfig_default =
     \<lparr>defaultLevel = INFO, enableAsync = False, asyncQueueSize = 10000,
      maxFileSizeMB = 100, maxFiles = 10, enableRotation = True, compressOldLogs = False,
      timestampFormat = ''%Y-%m-%d %H:%M:%S'', reconnectIntervalMs = 5000,
      maxReconnectAttempts = 10\<rparr>"

text \<open>
  The data members of \<^verbatim>\<open>class Logger\<close> that the member functions of Logger.cpp read or
  write. \<^verbatim>\<open>output_\<close> is a \<^verbatim>\<open>unique_ptr\<close>: \<open>None\<close> is the null pointer. The queue and the
  worker thread are used only by \<^verbatim>\<open>startAsyncWorker\<close> and \<^verbatim>\<open>stopAsyncWorker\<close>, which
  Logger.cpp does not define.
\<close>

record Logger =
  output_m :: "LogOutput option"
  defaultLevel_m :: LogLevel
  config_m :: LoggerConfig
  async_running_m :: bool
  last_error_m :: LoggingError
  last_error_message_m :: string

text \<open>
  \<^verbatim>\<open>Logger(filename, defaultLevel)\<close>. The initialiser list sets \<^verbatim>\<open>output_\<close> and
  \<^verbatim>\<open>defaultLevel_\<close>; \<^verbatim>\<open>config_\<close>, \<^verbatim>\<open>async_running_\<close> and \<^verbatim>\<open>last_error_message_\<close> take
  their defaults; \<^verbatim>\<open>last_error_\<close> is left uninitialised, so its first value \<open>e0\<close> is
  whatever the memory holds.
\<close>

definition Logger_file :: "bool \<Rightarrow> LoggingError \<Rightarrow> string \<Rightarrow> LogLevel \<Rightarrow> Logger" where
  "Logger_file opened e0 filename level =
     \<lparr>output_m = Some (File (FileOutput_new opened filename)),
      defaultLevel_m = level,
      config_m = LoggerConfig_default,
      async_running_m = False,
      last_error_m = e0,
      last_error_message_m = []\<rparr>"

text \<open>
  \<^verbatim>\<open>formatMessage\<close>; \<open>now\<close> is the string \<^verbatim>\<open>getCurrentTime()\<close> returns (the clock and the
  local time zone are the environment's).
\<close>

definition formatMessage :: "string \<Rightarrow> string \<Rightarrow> LogLevel \<Rightarrow> string" where
  "formatMessage now message level =
     ''['' @ now @ ''] '' @ ''['' @ logLevelToString level @ ''] '' @ message"

text \<open>\<^verbatim>\<open>Logger::log(message, level)\<close>: the returned flag and the logger after the call.\<close>

definition Logger_log ::
  "(LogLevel \<Rightarrow> int) \<Rightarrow> syscalls \<Rightarrow> string \<Rightarrow> Logger \<Rightarrow> string \<Rightarrow> LogLevel \<Rightarrow> bool \<times> Logger" where
  "Logger_log ext env now lg message level =
     (if levelInt ext level < levelInt ext (defaultLevel_m lg) then (True, lg)
      else case output_m lg of
             None \<Rightarrow> (False, lg)
           | Some out \<Rightarrow>
               if \<not> isValid out then (False, lg)
               else let formattedMessage = formatMessage now message level
                    in case writeLog env out formattedMessage of
                         (r, out') \<Rightarrow> (r, lg\<lparr>output_m := Some out'\<rparr>))"

text \<open>\<^verbatim>\<open>Logger::log(message)\<close>: the message at the threshold's own level.\<close>

definition Logger_log_default ::
  "(LogLevel \<Rightarrow> int) \<Rightarrow> syscalls \<Rightarrow> string \<Rightarrow> Logger \<Rightarrow> string \<Rightarrow> bool \<times> Logger" where
  "Logger_log_default ext env now lg message =
     Logger_log ext env now lg message (defaultLevel_m lg)"

definition setDefaultLevel :: "Logger \<Rightarrow> LogLevel \<Rightarrow> Logger" where
  "setDefaultLevel lg level = lg\<lparr>defaultLevel_m := level\<rparr>"

definition getDefaultLevel :: "Logger \<Rightarrow> LogLevel" where
  "getDefaultLevel lg = defaultLevel_m lg"

definition Logger_isValid :: "Logger \<Rightarrow> bool" where
  "Logger_isValid lg = (case output_m lg of None \<Rightarrow> False | Some out \<Rightarrow> isValid out)"

definition getLastError :: "Logger \<Rightarrow> LoggingError" where
  "getLastError lg = last_error_m lg"

definition getLastErrorMessage :: "Logger \<Rightarrow> string" where
  "getLastErrorMessage lg = last_error_message_m lg"

definition setConfig :: "Logger \<Rightarrow> LoggerConfig \<Rightarrow> Logger" where
  "setConfig lg config = lg\<lparr>config_m := config, defaultLevel_m := defaultLevel config\<rparr>"

definition getConfig :: "Logger \<Rightarrow> LoggerConfig" where
  "getConfig lg = config_m lg"

section \<open>The rotation threshold (Logger.h, \<^verbatim>\<open>LogRotator\<close>)\<close>

text \<open>
  Logger.h declares the class, its four data members and the signatures of its
  constructor and of \<^verbatim>\<open>shouldRotate\<close>; \<^verbatim>\<open>size_t\<close> is a 64-bit word.
\<close>

record LogRotator =
  base_filename_m :: string
  max_size_bytes_m :: "64 word"
  max_files_m :: "64 word"
  compress_m :: bool

text \<open>
  Modelled from the spec: the bodies of the constructor \<^verbatim>\<open>LogRotator::LogRotator\<close> and of
  \<^verbatim>\<open>LogRotator::shouldRotate\<close> are in no source file. The spec: "\<^verbatim>\<open>shouldRotate(currentSize)\<close>
  returns \<^verbatim>\<open>currentSize >= maxSizeBytes\<close> where \<^verbatim>\<open>maxSizeBytes = maxSizeMB * 1024 * 1024\<close>".
\<close>

definition LogRotator_new :: "string \<Rightarrow> 64 word \<Rightarrow> 64 word \<Rightarrow> bool \<Rightarrow> LogRotator" where
  "LogRotator_new base_filename max_size_mb max_files compress =
     \<lparr>base_filename_m = base_filename,
      max_size_bytes_m = max_size_mb * 1024 * 1024,
      max_files_m = max_files,
      compress_m = compress\<rparr>"

text \<open>
  Modelled from the spec: \<^verbatim>\<open>LogRotator::shouldRotate\<close>, whose body is in no source file.
\<close>

definition shouldRotate :: "LogRotator \<Rightarrow> 64 word \<Rightarrow> bool" where
  "shouldRotate r current_size = (current_size \<ge> max_size_bytes_m r)"

section \<open>The statistics collector (\<^verbatim>\<open>apps/log_stats/main.cpp\<close>)\<close>

text \<open>
  The members of \<^verbatim>\<open>std::string\<close> the parser calls. A position is a \<open>nat\<close> and
  \<^verbatim>\<open>std::string::npos\<close> is \<open>None\<close>. \<^verbatim>\<open>find\<close> and \<^verbatim>\<open>find_first_not_of\<close> search from a
  position on (from one past the end they find nothing); \<^verbatim>\<open>substr\<close> is called by the
  parser only with a start inside the string, where it does not throw.
\<close>

fun first_index :: "(char \<Rightarrow> bool) \<Rightarrow> string \<Rightarrow> nat option" where
  "first_index P [] = None"
| "first_index P (c # cs) = (if P c then Some 0 else map_option Suc (first_index P cs))"

definition str_find :: "string \<Rightarrow> char \<Rightarrow> nat \<Rightarrow> nat option" where
  "str_find s ch pos = map_option (\<lambda>i. pos + i) (first_index (\<lambda>c. c = ch) (drop pos s))"

definition find_first_not_of :: "string \<Rightarrow> string \<Rightarrow> nat \<Rightarrow> nat option" where
  "find_first_not_of s chars pos =
     map_option (\<lambda>i. pos + i) (first_index (\<lambda>c. c \<notin> set chars) (drop pos s))"

definition substr :: "string \<Rightarrow> nat \<Rightarrow> nat \<Rightarrow> string" where
  "substr s pos n = take n (drop pos s)"

definition substr_from :: "string \<Rightarrow> nat \<Rightarrow> string" where
  "substr_from s pos = drop pos s"

text \<open>
  \<^verbatim>\<open>parseLogMessage\<close>: \<open>None\<close> where the source returns false, otherwise the values it
  stores in \<^verbatim>\<open>message\<close> and \<^verbatim>\<open>level\<close>.
\<close>

definition parseLogMessage :: "string \<Rightarrow> (string \<times> LogLevel) option" where
  "parseLogMessage rawMessage =
     (case str_find rawMessage (CHR ''['') 0 of
        None \<Rightarrow> None
      | Some firstBracket \<Rightarrow>
     (case str_find rawMessage (CHR '']'') firstBracket of
        None \<Rightarrow> None
      | Some secondBracket \<Rightarrow>
     (case str_find rawMessage (CHR ''['') secondBracket of
        None \<Rightarrow> None
      | Some thirdBracket \<Rightarrow>
     (case str_find rawMessage (CHR '']'') thirdBracket of
        None \<Rightarrow> None
      | Some fourthBracket \<Rightarrow>
          let levelStr = substr rawMessage (thirdBracket + 1) (fourthBracket - thirdBracket - 1);
              level = stringToLogLevel levelStr;
              message =
                (case find_first_not_of rawMessage [CHR '' '', CHR 0x09] (fourthBracket + 1) of
                   None \<Rightarrow> []
                 | Some messageStart \<Rightarrow> substr_from rawMessage messageStart)
          in Some (message, level)))))"

text \<open>
  \<^verbatim>\<open>struct LogStatistics\<close>: the counters. A time point is a count of nanoseconds, the
  tick of \<^verbatim>\<open>system_clock\<close>. \<^verbatim>\<open>std::map<LogLevel, size_t>\<close> is a map; \<^verbatim>\<open>operator[]\<close> on
  a missing key inserts 0 first. Left out are \<^verbatim>\<open>avgLength\<close>, a \<^verbatim>\<open>double\<close>, and the two
  members that only schedule the report, \<^verbatim>\<open>lastStatsOutput\<close> and \<^verbatim>\<open>statsChanged\<close>.
  The \<^verbatim>\<open>size_t\<close> counters are \<open>nat\<close>; \<^verbatim>\<open>SIZE_MAX\<close> is that of a 64-bit \<^verbatim>\<open>size_t\<close>.
\<close>

record LogStatistics =
  totalMessages :: nat
  messagesByLevel :: "LogLevel \<rightharpoonup> nat"
  messagesLastHour :: nat
  minLength :: nat
  maxLength :: nat
  totalLength :: nat
  timestamps :: "int list"

definition SIZE_MAX :: nat where
  "SIZE_MAX = 2 ^ 64 - 1"

definition LogStatistics_new :: LogStatistics where
  "LogStatistics_new =
     \<lparr>totalMessages = 0, messagesByLevel = Map.empty, messagesLastHour = 0,
      minLength = SIZE_MAX, maxLength = 0, totalLength = 0, timestamps = []\<rparr>"

definition one_hour :: int where
  "one_hour = 3600 * 1000000000"

definition addMessage :: "int \<Rightarrow> LogStatistics \<Rightarrow> string \<Rightarrow> LogLevel \<Rightarrow> LogStatistics" where
  "addMessage now st message level =
     (let messageLength = length message;
          hourAgo = now - one_hour;
          kept = filter (\<lambda>timestamp. \<not> timestamp < hourAgo) (timestamps st @ [now])
      in st\<lparr>totalMessages := totalMessages st + 1,
             messagesByLevel := (messagesByLevel st)
               (level \<mapsto> (case messagesByLevel st level of None \<Rightarrow> 0 | Some n \<Rightarrow> n) + 1),
             totalLength := totalLength st + messageLength,
             minLength := min (minLength st) messageLength,
             maxLength := max (maxLength st) messageLength,
             timestamps := kept,
             messagesLastHour := length kept\<rparr>)"

text \<open>
  What the receive loop of \<^verbatim>\<open>main\<close> does with one line cut from the stream, at time
  \<open>now\<close>: an empty line is skipped, one trailing carriage return is dropped, and a line
  that parses is counted. \<open>handleLines\<close> does so for each line of a list in turn.
\<close>

definition handleLine :: "LogStatistics \<Rightarrow> int \<times> string \<Rightarrow> LogStatistics" where
  "handleLine st timed =
     (case timed of (now, line) \<Rightarrow>
        if line = [] then st
        else let line' = (if last line = CHR 0x0D then butlast line else line)
             in case parseLogMessage line' of
                  Some (message, level) \<Rightarrow> addMessage now st message level
                | None \<Rightarrow> st)"

definition handleLines :: "LogStatistics \<Rightarrow> (int \<times> string) list \<Rightarrow> LogStatistics" where
  "handleLines st lines = foldl handleLine st lines"

section \<open>Properties of the level policy\<close>










section \<open>Properties of the bounded queue\<close>

lemma push_room:
  "length (queue_m q) < max_size_m q \<Longrightarrow> push q x = (True, q\<lparr>queue_m := queue_m q @ [x]\<rparr>)"
  by (simp add: push_def)

lemma push_full:
  "max_size_m q \<le> length (queue_m q) \<Longrightarrow> push q x = (False, q)"
  by (simp add: push_def)

lemma push_all_room:
  "length (queue_m q) + length xs \<le> max_size_m q \<Longrightarrow>
   push_all q xs = (replicate (length xs) True, q\<lparr>queue_m := queue_m q @ xs\<rparr>)"
proof (induction xs arbitrary: q)
  case Nil
  then show ?case by simp
next
  case (Cons x xs)
  have "length (queue_m q) < max_size_m q" using Cons.prems by simp
  then have p: "push q x = (True, q\<lparr>queue_m := queue_m q @ [x]\<rparr>)" by (rule push_room)
  have "length (queue_m (q\<lparr>queue_m := queue_m q @ [x]\<rparr>)) + length xs \<le> max_size_m (q\<lparr>queue_m := queue_m q @ [x]\<rparr>)"
    using Cons.prems by simp
  from Cons.IH [OF this] p show ?case by simp
qed

lemma push_all_full:
  "max_size_m q \<le> length (queue_m q) \<Longrightarrow> push_all q xs = (replicate (length xs) False, q)"
  by (induction xs) (simp_all add: push_full)

lemma push_all_append:
  "push_all q (xs @ ys) =
     (case push_all q xs of (rs, q') \<Rightarrow> (case push_all q' ys of (rs', q'') \<Rightarrow> (rs @ rs', q'')))"
  by (induction xs arbitrary: q) (simp_all split: prod.splits)

lemma pop_nonempty:
  "queue_m q = x # xs \<Longrightarrow> pop q d = Some (True, x, q\<lparr>queue_m := xs\<rparr>)"
  by (simp add: pop_def)

lemma pop_n_drain:
  "queue_m q = xs @ ys \<Longrightarrow> pop_n (length xs) q d = Some (map (Pair True) xs, q\<lparr>queue_m := ys\<rparr>)"
proof (induction xs arbitrary: q d)
  case Nil
  then show ?case by simp
next
  case (Cons x xs)
  have p: "pop q d = Some (True, x, q\<lparr>queue_m := xs @ ys\<rparr>)"
    using Cons.prems by (simp add: pop_nonempty)
  have "queue_m (q\<lparr>queue_m := xs @ ys\<rparr>) = xs @ ys" by simp
  from Cons.IH [OF this, of x] p show ?case by simp
qed

text \<open>
  C2. \<^verbatim>\<open>push\<close> is a total function of the queue and the item, so a call returns without
  waiting for anything. On a queue whose size has reached \<^verbatim>\<open>max_size_\<close> it returns false
  and leaves the queue as it was; below the bound it appends the item and returns true.
  So on a fresh queue of capacity \<open>length xs\<close>, pushing the items \<open>xs\<close> and one more
  item \<open>y\<close> with no \<^verbatim>\<open>pop\<close> in between accepts every item of \<open>xs\<close> and rejects
  exactly the last push, and \<open>length xs\<close> calls of \<^verbatim>\<open>pop\<close> then each return true and
  yield the accepted items in the order they were pushed, leaving the queue empty.
\<close>

theorem push_backpressure:
  "(max_size_m q \<le> length (queue_m q) \<longrightarrow> push q x = (False, q))
   \<and> (length (queue_m q) < max_size_m q \<longrightarrow> push q x = (True, q\<lparr>queue_m := queue_m q @ [x]\<rparr>))
   \<and> push_all (AsyncQueue_new (length xs)) (xs @ [y])
       = (replicate (length xs) True @ [False], (AsyncQueue_new (length xs))\<lparr>queue_m := xs\<rparr>)
   \<and> pop_n (length xs) ((AsyncQueue_new (length xs))\<lparr>queue_m := xs\<rparr>) d
       = Some (map (Pair True) xs, AsyncQueue_new (length xs))"
proof (intro conjI impI)
  assume "max_size_m q \<le> length (queue_m q)"
  then show "push q x = (False, q)" by (rule push_full)
next
  assume "length (queue_m q) < max_size_m q"
  then show "push q x = (True, q\<lparr>queue_m := queue_m q @ [x]\<rparr>)" by (rule push_room)
next
  let ?q0 = "AsyncQueue_new (length xs) :: 'b AsyncQueue"
  let ?q1 = "?q0\<lparr>queue_m := xs\<rparr>"
  have a: "push_all ?q0 xs = (replicate (length xs) True, ?q1)"
    using push_all_room [of ?q0 xs] by (simp add: AsyncQueue_new_def)
  have b: "push_all ?q1 [y] = ([False], ?q1)"
    using push_all_full [of ?q1 "[y]"] by (simp add: AsyncQueue_new_def)
  show "push_all ?q0 (xs @ [y]) = (replicate (length xs) True @ [False], ?q1)"
    by (simp only: push_all_append a b prod.case)
next
  let ?q1 = "(AsyncQueue_new (length xs) :: 'b AsyncQueue)\<lparr>queue_m := xs\<rparr>"
  show "pop_n (length xs) ?q1 d = Some (map (Pair True) xs, AsyncQueue_new (length xs))"
    using pop_n_drain [of ?q1 xs "[]" d] by (simp add: AsyncQueue_new_def)
qed

text \<open>The same at capacities 0 and 2, with the items 1, 2 and 3.\<close>

theorem push_backpressure_witness:
  "max_size_m (AsyncQueue_new 0 :: nat AsyncQueue) \<le> length (queue_m (AsyncQueue_new 0 :: nat AsyncQueue))
   \<and> push (AsyncQueue_new 0) (7::nat) = (False, AsyncQueue_new 0)
   \<and> length (queue_m (AsyncQueue_new 2 :: nat AsyncQueue)) < max_size_m (AsyncQueue_new 2 :: nat AsyncQueue)
   \<and> push (AsyncQueue_new 2) (7::nat) = (True, (AsyncQueue_new 2)\<lparr>queue_m := [7]\<rparr>)
   \<and> push_all (AsyncQueue_new 2) [1, 2, 3::nat]
       = ([True, True, False], (AsyncQueue_new 2)\<lparr>queue_m := [1, 2]\<rparr>)
   \<and> pop_n 2 ((AsyncQueue_new 2)\<lparr>queue_m := [1, 2::nat]\<rparr>) 0
       = Some ([(True, 1), (True, 2)], AsyncQueue_new 2)"
  using push_backpressure [of "AsyncQueue_new 0 :: nat AsyncQueue" 7 "[1, 2::nat]" 3 0]
    push_backpressure [of "AsyncQueue_new 2 :: nat AsyncQueue" 7 "[1, 2::nat]" 3 0]
  by (simp add: AsyncQueue_new_def numeral_2_eq_2)

lemma pop_shutdown_empty:
  "shutdown_m q \<Longrightarrow> queue_m q = [] \<Longrightarrow> pop q d = Some (False, d, q)"
  by (simp add: pop_def)

lemma pop_n_drain_then_false:
  "shutdown_m q \<Longrightarrow> queue_m q = xs \<Longrightarrow>
   pop_n (Suc (length xs)) q d
     = Some (map (Pair True) xs @ [(False, last (d # xs))], q\<lparr>queue_m := []\<rparr>)"
proof (induction xs arbitrary: q d)
  case Nil
  then have "pop q d = Some (False, d, q)" by (simp add: pop_shutdown_empty)
  moreover have "q\<lparr>queue_m := []\<rparr> = q" using Nil by simp
  ultimately show ?case by simp
next
  case (Cons x xs)
  let ?q' = "q\<lparr>queue_m := xs\<rparr>"
  have p: "pop q d = Some (True, x, ?q')" using Cons.prems by (simp add: pop_nonempty)
  have "shutdown_m ?q'" "queue_m ?q' = xs" using Cons.prems by simp_all
  from Cons.IH [OF this, of x]
  have "pop_n (Suc (length xs)) ?q' x
     = Some (map (Pair True) xs @ [(False, last (x # xs))], q\<lparr>queue_m := []\<rparr>)" by simp
  with p show ?case by simp
qed

text \<open>
  C3. Let the queue hold \<open>K = length (queue_m q)\<close> items when \<^verbatim>\<open>shutdown()\<close> is called.
  The next \<open>K\<close> calls of \<^verbatim>\<open>pop\<close> all return (none blocks), each returns true, and they
  yield the \<open>K\<close> items in queue order; the call after them returns false and leaves its
  argument alone (stated for that call alone, and for the run of \<open>K + 1\<close> calls). A
  second \<^verbatim>\<open>shutdown()\<close> leaves the queue as the first one did.
\<close>

theorem shutdown_drains:
  "pop_n (length (queue_m q)) (shutdown q) d
     = Some (map (Pair True) (queue_m q), (shutdown q)\<lparr>queue_m := []\<rparr>)
   \<and> pop ((shutdown q)\<lparr>queue_m := []\<rparr>) d' = Some (False, d', (shutdown q)\<lparr>queue_m := []\<rparr>)
   \<and> pop_n (Suc (length (queue_m q))) (shutdown q) d
     = Some (map (Pair True) (queue_m q) @ [(False, last (d # queue_m q))],
             (shutdown q)\<lparr>queue_m := []\<rparr>)
   \<and> shutdown (shutdown q) = shutdown q"
proof (intro conjI)
  show "pop_n (length (queue_m q)) (shutdown q) d
     = Some (map (Pair True) (queue_m q), (shutdown q)\<lparr>queue_m := []\<rparr>)"
    using pop_n_drain [of "shutdown q" "queue_m q" "[]" d] by (simp add: shutdown_def)
  show "pop ((shutdown q)\<lparr>queue_m := []\<rparr>) d' = Some (False, d', (shutdown q)\<lparr>queue_m := []\<rparr>)"
    by (rule pop_shutdown_empty) (simp_all add: shutdown_def)
  show "pop_n (Suc (length (queue_m q))) (shutdown q) d
     = Some (map (Pair True) (queue_m q) @ [(False, last (d # queue_m q))],
             (shutdown q)\<lparr>queue_m := []\<rparr>)"
    by (rule pop_n_drain_then_false) (simp_all add: shutdown_def)
  show "shutdown (shutdown q) = shutdown q"
    by (simp add: shutdown_def)
qed

text \<open>The same for a queue of capacity 5 that holds 10, 20 and 30.\<close>

theorem shutdown_drains_witness:
  "pop_n 3 (shutdown ((AsyncQueue_new 5)\<lparr>queue_m := [10, 20, 30::nat]\<rparr>)) 0
     = Some ([(True, 10), (True, 20), (True, 30)],
             \<lparr>queue_m = [], shutdown_m = True, max_size_m = 5\<rparr>)
   \<and> pop \<lparr>queue_m = [], shutdown_m = True, max_size_m = 5\<rparr> (30::nat)
     = Some (False, 30, \<lparr>queue_m = [], shutdown_m = True, max_size_m = 5\<rparr>)
   \<and> pop_n 4 (shutdown ((AsyncQueue_new 5)\<lparr>queue_m := [10, 20, 30::nat]\<rparr>)) 0
     = Some ([(True, 10), (True, 20), (True, 30), (False, 30)],
             \<lparr>queue_m = [], shutdown_m = True, max_size_m = 5\<rparr>)
   \<and> shutdown (shutdown ((AsyncQueue_new 5)\<lparr>queue_m := [10, 20, 30::nat]\<rparr>))
     = shutdown ((AsyncQueue_new 5)\<lparr>queue_m := [10, 20, 30::nat]\<rparr>)"
proof -
  have n: "(4::nat) = Suc 3" by simp
  show ?thesis
    using shutdown_drains [of "(AsyncQueue_new 5)\<lparr>queue_m := [10, 20, 30::nat]\<rparr>" 0 30]
    unfolding n
    by (simp add: AsyncQueue_new_def shutdown_def numeral_3_eq_3 del: pop_n.simps)
qed

text \<open>
  C10. \<^verbatim>\<open>push\<close> does not read the shutdown flag: after \<^verbatim>\<open>shutdown()\<close>, a push on a queue
  below its capacity still returns true and appends the item, the flag stays set, and the
  push is accepted as it would have been without the shutdown.
\<close>

theorem push_after_shutdown:
  "length (queue_m q) < max_size_m q \<Longrightarrow>
   push (shutdown q) x = (True, (shutdown q)\<lparr>queue_m := queue_m q @ [x]\<rparr>)
   \<and> shutdown_m (snd (push (shutdown q) x))
   \<and> fst (push (shutdown q) x) = fst (push q x)"
  by (simp add: push_def shutdown_def)

text \<open>A queue of capacity 2 holding one item, shut down, accepts a second item.\<close>

theorem push_after_shutdown_witness:
  "length (queue_m ((AsyncQueue_new 2)\<lparr>queue_m := [1::nat]\<rparr>))
     < max_size_m ((AsyncQueue_new 2)\<lparr>queue_m := [1::nat]\<rparr>)
   \<and> push (shutdown ((AsyncQueue_new 2)\<lparr>queue_m := [1::nat]\<rparr>)) 9
     = (True, \<lparr>queue_m = [1, 9], shutdown_m = True, max_size_m = 2\<rparr>)"
proof -
  have h: "length (queue_m ((AsyncQueue_new 2)\<lparr>queue_m := [1::nat]\<rparr>))
     < max_size_m ((AsyncQueue_new 2)\<lparr>queue_m := [1::nat]\<rparr>)"
    by (simp add: AsyncQueue_new_def)
  show ?thesis
    using h push_after_shutdown [OF h, of 9] by (simp add: AsyncQueue_new_def shutdown_def)
qed

section \<open>Properties of the logger and its backends\<close>

lemma levelInt_order: "levelInt ext DEBUG < levelInt ext INFO \<and> levelInt ext INFO < levelInt ext WARNING"
  by (simp add: levelInt_def)

lemma FileOutput_writeLog_changes:
  "FileOutput_isValid f \<Longrightarrow> snd (FileOutput_writeLog ok f m) \<noteq> f"
proof -
  assume v: "FileOutput_isValid f"
  show ?thesis
  proof (cases ok)
    case True
    have "file_lines (snd (FileOutput_writeLog ok f m)) = file_lines f @ [m]"
      using v True by (simp add: FileOutput_writeLog_def FileOutput_isValid_def Let_def)
    then have "file_lines (snd (FileOutput_writeLog ok f m)) \<noteq> file_lines f" by simp
    then show ?thesis by auto
  next
    case False
    have "\<not> file_good (snd (FileOutput_writeLog ok f m))"
      using v False by (simp add: FileOutput_writeLog_def FileOutput_isValid_def Let_def)
    moreover have "file_good f" using v by (simp add: FileOutput_isValid_def)
    ultimately show ?thesis by auto
  qed
qed

lemma SocketOutput_writeLog_sends:
  "SocketOutput_isValid s \<Longrightarrow>
   sends (snd (SocketOutput_writeLog sr s m)) = sends s @ [m @ [CHR 0x0A]]"
  by (simp add: SocketOutput_writeLog_def SocketOutput_isValid_def Let_def)

lemma SocketOutput_writeLog_changes:
  "SocketOutput_isValid s \<Longrightarrow> snd (SocketOutput_writeLog sr s m) \<noteq> s"
proof -
  assume v: "SocketOutput_isValid s"
  have "sends (snd (SocketOutput_writeLog sr s m)) \<noteq> sends s"
    by (simp add: SocketOutput_writeLog_sends [OF v])
  then show ?thesis by auto
qed

lemma writeLog_changes: "isValid out \<Longrightarrow> snd (writeLog env out m) \<noteq> out"
proof (cases out)
  case (File f)
  assume "isValid out"
  then have "snd (FileOutput_writeLog (wr_ok env) f m) \<noteq> f"
    using File by (simp add: FileOutput_writeLog_changes)
  then show ?thesis using File by (auto split: prod.splits)
next
  case (Socket s)
  assume "isValid out"
  then have "snd (SocketOutput_writeLog (sendres env) s m) \<noteq> s"
    using Socket by (simp add: SocketOutput_writeLog_changes)
  then show ?thesis using Socket by (auto split: prod.splits)
qed

lemma log_filtered:
  "levelInt ext L1 < levelInt ext (defaultLevel_m lg) \<Longrightarrow>
   Logger_log ext env now lg message L1 = (True, lg)"
  by (simp add: Logger_log_def)

lemma log_unusable:
  "levelInt ext (defaultLevel_m lg) \<le> levelInt ext L1 \<Longrightarrow> \<not> Logger_isValid lg \<Longrightarrow>
   Logger_log ext env now lg message L1 = (False, lg)"
  by (simp add: Logger_log_def Logger_isValid_def split: option.splits)

lemma log_written:
  "levelInt ext (defaultLevel_m lg) \<le> levelInt ext L1 \<Longrightarrow> output_m lg = Some out \<Longrightarrow>
   isValid out \<Longrightarrow>
   Logger_log ext env now lg message L1 =
     (fst (writeLog env out (formatMessage now message L1)),
      lg\<lparr>output_m := Some (snd (writeLog env out (formatMessage now message L1)))\<rparr>)"
  by (simp add: Logger_log_def Let_def split: prod.splits)

text \<open>
  C1. Levels are compared by their integer values, and \<^verbatim>\<open>DEBUG < INFO < WARNING\<close>. Let
  \<open>L1\<close> be the level of the message and \<^verbatim>\<open>defaultLevel_\<close> the threshold. If \<open>L1\<close> is
  below the threshold, \<^verbatim>\<open>log\<close> returns true and the logger, its backend included, is as
  before: the backend has not been called. If \<open>L1\<close> is at or above the threshold and the
  backend is absent or not valid, \<^verbatim>\<open>log\<close> returns false and nothing changes. If \<open>L1\<close>
  is at or above the threshold and the backend is valid, \<^verbatim>\<open>log\<close> hands the formatted
  message to the backend's \<^verbatim>\<open>writeLog\<close>, returns what \<^verbatim>\<open>writeLog\<close> returns and keeps
  the backend as \<^verbatim>\<open>writeLog\<close> left it. Hence, with a valid backend, the backend changes
  (a line appended to the file or its stream failed, a buffer handed to \<^verbatim>\<open>send\<close>)
  exactly when \<open>L1\<close> is at or above the threshold.
\<close>

theorem log_level_filter:
  "levelInt ext DEBUG < levelInt ext INFO \<and> levelInt ext INFO < levelInt ext WARNING
   \<and> (levelInt ext L1 < levelInt ext (defaultLevel_m lg) \<longrightarrow>
        Logger_log ext env now lg message L1 = (True, lg))
   \<and> (levelInt ext (defaultLevel_m lg) \<le> levelInt ext L1 \<and> \<not> Logger_isValid lg \<longrightarrow>
        Logger_log ext env now lg message L1 = (False, lg))
   \<and> (levelInt ext (defaultLevel_m lg) \<le> levelInt ext L1 \<and> output_m lg = Some out \<and> isValid out \<longrightarrow>
        Logger_log ext env now lg message L1 =
          (fst (writeLog env out (formatMessage now message L1)),
           lg\<lparr>output_m := Some (snd (writeLog env out (formatMessage now message L1)))\<rparr>))
   \<and> (output_m lg = Some out \<and> isValid out \<longrightarrow>
        (output_m (snd (Logger_log ext env now lg message L1)) \<noteq> output_m lg)
          = (levelInt ext (defaultLevel_m lg) \<le> levelInt ext L1))"
proof (intro conjI impI)
  show "levelInt ext DEBUG < levelInt ext INFO" "levelInt ext INFO < levelInt ext WARNING"
    using levelInt_order by blast+
next
  assume "levelInt ext L1 < levelInt ext (defaultLevel_m lg)"
  then show "Logger_log ext env now lg message L1 = (True, lg)" by (rule log_filtered)
next
  assume "levelInt ext (defaultLevel_m lg) \<le> levelInt ext L1 \<and> \<not> Logger_isValid lg"
  then show "Logger_log ext env now lg message L1 = (False, lg)" by (simp add: log_unusable)
next
  assume "levelInt ext (defaultLevel_m lg) \<le> levelInt ext L1 \<and> output_m lg = Some out \<and> isValid out"
  then show "Logger_log ext env now lg message L1 =
          (fst (writeLog env out (formatMessage now message L1)),
           lg\<lparr>output_m := Some (snd (writeLog env out (formatMessage now message L1)))\<rparr>)"
    by (simp add: log_written)
next
  assume a: "output_m lg = Some out \<and> isValid out"
  show "(output_m (snd (Logger_log ext env now lg message L1)) \<noteq> output_m lg)
          = (levelInt ext (defaultLevel_m lg) \<le> levelInt ext L1)"
  proof (cases "levelInt ext L1 < levelInt ext (defaultLevel_m lg)")
    case True
    then show ?thesis by (simp add: log_filtered)
  next
    case False
    then have le: "levelInt ext (defaultLevel_m lg) \<le> levelInt ext L1" by simp
    have "snd (writeLog env out (formatMessage now message L1)) \<noteq> out"
      using a by (simp add: writeLog_changes)
    then show ?thesis using a le by (simp add: log_written)
  qed
qed

text \<open>
  A file logger with threshold \<^verbatim>\<open>WARNING\<close>: an \<^verbatim>\<open>INFO\<close> message is filtered, a
  \<^verbatim>\<open>WARNING\<close> message is written as one line, and with a file that did not open the
  \<^verbatim>\<open>WARNING\<close> message fails.
\<close>

theorem log_level_filter_witness:
  "levelInt (\<lambda>_. 0) INFO < levelInt (\<lambda>_. 0) (defaultLevel_m (Logger_file True SUCCESS ''t.log'' WARNING))
   \<and> Logger_log (\<lambda>_. 0) \<lparr>wr_ok = True, sendres = (\<lambda>_. 0)\<rparr> ''t''
         (Logger_file True SUCCESS ''t.log'' WARNING) ''b'' INFO
       = (True, Logger_file True SUCCESS ''t.log'' WARNING)
   \<and> levelInt (\<lambda>_. 0) (defaultLevel_m (Logger_file False SUCCESS ''t.log'' WARNING))
         \<le> levelInt (\<lambda>_. 0) WARNING
   \<and> \<not> Logger_isValid (Logger_file False SUCCESS ''t.log'' WARNING)
   \<and> Logger_log (\<lambda>_. 0) \<lparr>wr_ok = True, sendres = (\<lambda>_. 0)\<rparr> ''t''
         (Logger_file False SUCCESS ''t.log'' WARNING) ''c'' WARNING
       = (False, Logger_file False SUCCESS ''t.log'' WARNING)
   \<and> output_m (Logger_file True SUCCESS ''t.log'' WARNING) = Some (File (FileOutput_new True ''t.log''))
   \<and> isValid (File (FileOutput_new True ''t.log''))
   \<and> Logger_log (\<lambda>_. 0) \<lparr>wr_ok = True, sendres = (\<lambda>_. 0)\<rparr> ''t''
         (Logger_file True SUCCESS ''t.log'' WARNING) ''c'' WARNING
       = (True, (Logger_file True SUCCESS ''t.log'' WARNING)
                  \<lparr>output_m := Some (File ((FileOutput_new True ''t.log'')
                                             \<lparr>file_lines := [''[t] [WARNING] c'']\<rparr>))\<rparr>)"
  using log_level_filter [of "\<lambda>_. 0" INFO "Logger_file True SUCCESS ''t.log'' WARNING"
        "\<lparr>wr_ok = True, sendres = (\<lambda>_. 0)\<rparr>" "''t''" "''b''" "File (FileOutput_new True ''t.log'')"]
    log_level_filter [of "\<lambda>_. 0" WARNING "Logger_file False SUCCESS ''t.log'' WARNING"
        "\<lparr>wr_ok = True, sendres = (\<lambda>_. 0)\<rparr>" "''t''" "''c''" "File (FileOutput_new False ''t.log'')"]
    log_level_filter [of "\<lambda>_. 0" WARNING "Logger_file True SUCCESS ''t.log'' WARNING"
        "\<lparr>wr_ok = True, sendres = (\<lambda>_. 0)\<rparr>" "''t''" "''c''" "File (FileOutput_new True ''t.log'')"]
  by (simp add: levelInt_def Logger_file_def Logger_isValid_def FileOutput_new_def
      FileOutput_isValid_def FileOutput_writeLog_def formatMessage_def logLevelToString_def)

text \<open>
  \<^verbatim>\<open>setConfig\<close> stores the configuration and copies its level into \<^verbatim>\<open>defaultLevel_\<close>;
  \<^verbatim>\<open>setDefaultLevel\<close> writes \<^verbatim>\<open>defaultLevel_\<close> only.
\<close>

lemma setConfig_syncs:
  "defaultLevel_m (setConfig lg c) = defaultLevel (config_m (setConfig lg c))
   \<and> config_m (setConfig lg c) = c"
  by (simp add: setConfig_def)

lemma setDefaultLevel_frame:
  "defaultLevel_m (setDefaultLevel lg l) = l \<and> config_m (setDefaultLevel lg l) = config_m lg"
  by (simp add: setDefaultLevel_def)

text \<open>
  C5. The two fields are equal after \<^verbatim>\<open>setConfig\<close> (lemma \<open>setConfig_syncs\<close>), but not
  after every \<^verbatim>\<open>setDefaultLevel\<close>: on a logger built by \<^verbatim>\<open>Logger("t.log", INFO)\<close>, the
  call \<^verbatim>\<open>setDefaultLevel(DEBUG)\<close> leaves \<^verbatim>\<open>defaultLevel_ = DEBUG\<close> and
  \<^verbatim>\<open>config_.defaultLevel = INFO\<close>, so \<^verbatim>\<open>getConfig()\<close> reports a threshold that
  \<^verbatim>\<open>getDefaultLevel()\<close> and \<^verbatim>\<open>log\<close> do not use.
\<close>

theorem setDefaultLevel_stale_config:
  "defaultLevel_m (setDefaultLevel (Logger_file True SUCCESS ''t.log'' INFO) DEBUG) = DEBUG
   \<and> defaultLevel (config_m (setDefaultLevel (Logger_file True SUCCESS ''t.log'' INFO) DEBUG)) = INFO
   \<and> defaultLevel (getConfig (setDefaultLevel (Logger_file True SUCCESS ''t.log'' INFO) DEBUG))
       \<noteq> getDefaultLevel (setDefaultLevel (Logger_file True SUCCESS ''t.log'' INFO) DEBUG)"
  by (simp add: setDefaultLevel_def Logger_file_def LoggerConfig_default_def getConfig_def
      getDefaultLevel_def)

text \<open>
  C6, as amended. On a connected socket, \<^verbatim>\<open>writeLog\<close> calls \<^verbatim>\<open>send\<close> exactly once, with
  the message followed by a newline, whatever \<^verbatim>\<open>send\<close> returns: there is no retry. A
  negative result makes \<^verbatim>\<open>writeLog\<close> return false and marks the connection invalid. A
  partial send (a result that is not negative and is not the number of bytes requested)
  makes \<^verbatim>\<open>writeLog\<close> return false and leaves the connection valid. A complete send
  returns true and leaves the connection valid.
\<close>

theorem socket_write_failure:
  "SocketOutput_isValid s \<longrightarrow>
     sends (snd (SocketOutput_writeLog sr s m)) = sends s @ [m @ [CHR 0x0A]]
     \<and> (sr (length (sends s)) < 0 \<longrightarrow>
          \<not> fst (SocketOutput_writeLog sr s m)
          \<and> \<not> SocketOutput_isValid (snd (SocketOutput_writeLog sr s m)))
     \<and> (0 \<le> sr (length (sends s)) \<and> sr (length (sends s)) \<noteq> int (length (m @ [CHR 0x0A])) \<longrightarrow>
          \<not> fst (SocketOutput_writeLog sr s m)
          \<and> SocketOutput_isValid (snd (SocketOutput_writeLog sr s m)))
     \<and> (sr (length (sends s)) = int (length (m @ [CHR 0x0A])) \<longrightarrow>
          fst (SocketOutput_writeLog sr s m)
          \<and> SocketOutput_isValid (snd (SocketOutput_writeLog sr s m)))"
  by (simp add: SocketOutput_writeLog_def SocketOutput_isValid_def Let_def)

text \<open>
  A connected socket and the message \<^verbatim>\<open>abc\<close> (four bytes with the newline): \<^verbatim>\<open>send\<close>
  returning -1, and \<^verbatim>\<open>send\<close> returning 2.
\<close>

theorem socket_write_failure_witness:
  "SocketOutput_isValid \<lparr>socket_fd_m = 3, host_m = ''127.0.0.1'', port_m = 9000,
                          connected_m = True, sends = []\<rparr>
   \<and> \<not> fst (SocketOutput_writeLog (\<lambda>_. - 1)
         \<lparr>socket_fd_m = 3, host_m = ''127.0.0.1'', port_m = 9000, connected_m = True, sends = []\<rparr> ''abc'')
   \<and> \<not> SocketOutput_isValid (snd (SocketOutput_writeLog (\<lambda>_. - 1)
         \<lparr>socket_fd_m = 3, host_m = ''127.0.0.1'', port_m = 9000, connected_m = True, sends = []\<rparr> ''abc''))
   \<and> \<not> fst (SocketOutput_writeLog (\<lambda>_. 2)
         \<lparr>socket_fd_m = 3, host_m = ''127.0.0.1'', port_m = 9000, connected_m = True, sends = []\<rparr> ''abc'')
   \<and> SocketOutput_isValid (snd (SocketOutput_writeLog (\<lambda>_. 2)
         \<lparr>socket_fd_m = 3, host_m = ''127.0.0.1'', port_m = 9000, connected_m = True, sends = []\<rparr> ''abc''))
   \<and> sends (snd (SocketOutput_writeLog (\<lambda>_. 2)
         \<lparr>socket_fd_m = 3, host_m = ''127.0.0.1'', port_m = 9000, connected_m = True, sends = []\<rparr> ''abc''))
       = [''abc'' @ [CHR 0x0A]]"
  using socket_write_failure [of "\<lparr>socket_fd_m = 3, host_m = ''127.0.0.1'', port_m = 9000,
          connected_m = True, sends = []\<rparr>" "\<lambda>_. - 1" "''abc''"]
    socket_write_failure [of "\<lparr>socket_fd_m = 3, host_m = ''127.0.0.1'', port_m = 9000,
          connected_m = True, sends = []\<rparr>" "\<lambda>_. 2" "''abc''"]
  by (simp add: SocketOutput_isValid_def)

text \<open>
  C6 as stated fails: after a partial send of 2 of the 4 bytes, \<^verbatim>\<open>isValid()\<close> is still
  true.
\<close>

theorem socket_partial_send_counterexample:
  "SocketOutput_isValid \<lparr>socket_fd_m = 3, host_m = ''127.0.0.1'', port_m = 9000,
                          connected_m = True, sends = []\<rparr>
   \<and> (2::int) \<noteq> int (length (''abc'' @ [CHR 0x0A]))
   \<and> SocketOutput_isValid (snd (SocketOutput_writeLog (\<lambda>_. 2)
         \<lparr>socket_fd_m = 3, host_m = ''127.0.0.1'', port_m = 9000, connected_m = True, sends = []\<rparr> ''abc''))"
  by (simp add: SocketOutput_writeLog_def SocketOutput_isValid_def Let_def)

text \<open>
  C7, as amended. \<^verbatim>\<open>getLastError\<close> and \<^verbatim>\<open>getLastErrorMessage\<close> return the fields
  \<^verbatim>\<open>last_error_\<close> and \<^verbatim>\<open>last_error_message_\<close>, and no member function of Logger.cpp
  writes them: after \<^verbatim>\<open>log\<close> (failed or not), \<^verbatim>\<open>setDefaultLevel\<close> or \<^verbatim>\<open>setConfig\<close> both
  accessors return what they returned before the call.
\<close>

theorem last_error_untouched:
  "getLastError (snd (Logger_log ext env now lg message level)) = getLastError lg
   \<and> getLastErrorMessage (snd (Logger_log ext env now lg message level)) = getLastErrorMessage lg
   \<and> getLastError (snd (Logger_log_default ext env now lg message)) = getLastError lg
   \<and> getLastErrorMessage (snd (Logger_log_default ext env now lg message))
       = getLastErrorMessage lg
   \<and> getLastError (setDefaultLevel lg level) = getLastError lg
   \<and> getLastErrorMessage (setDefaultLevel lg level) = getLastErrorMessage lg
   \<and> getLastError (setConfig lg c) = getLastError lg
   \<and> getLastErrorMessage (setConfig lg c) = getLastErrorMessage lg
   \<and> getLastError lg = last_error_m lg
   \<and> getLastErrorMessage lg = last_error_message_m lg"
  by (simp add: Logger_log_def Logger_log_default_def setDefaultLevel_def setConfig_def
      getLastError_def getLastErrorMessage_def Let_def split: option.splits prod.splits)

text \<open>
  A logger whose file did not open and whose slot holds an older error: the failed
  \<^verbatim>\<open>log\<close> leaves the older error in the slot.
\<close>

theorem last_error_untouched_witness:
  "\<not> fst (Logger_log (\<lambda>_. 0) \<lparr>wr_ok = True, sendres = (\<lambda>_. 0)\<rparr> ''t''
        ((Logger_file False SUCCESS ''/root/inaccessible.log'' INFO)
           \<lparr>last_error_m := CONFIG_PARSE_ERROR, last_error_message_m := ''old''\<rparr>)
        ''This should not crash'' INFO)
   \<and> getLastError (snd (Logger_log (\<lambda>_. 0) \<lparr>wr_ok = True, sendres = (\<lambda>_. 0)\<rparr> ''t''
        ((Logger_file False SUCCESS ''/root/inaccessible.log'' INFO)
           \<lparr>last_error_m := CONFIG_PARSE_ERROR, last_error_message_m := ''old''\<rparr>)
        ''This should not crash'' INFO)) = CONFIG_PARSE_ERROR
   \<and> getLastErrorMessage (snd (Logger_log (\<lambda>_. 0) \<lparr>wr_ok = True, sendres = (\<lambda>_. 0)\<rparr> ''t''
        ((Logger_file False SUCCESS ''/root/inaccessible.log'' INFO)
           \<lparr>last_error_m := CONFIG_PARSE_ERROR, last_error_message_m := ''old''\<rparr>)
        ''This should not crash'' INFO)) = ''old''"
  using last_error_untouched [of "\<lambda>_. 0" "\<lparr>wr_ok = True, sendres = (\<lambda>_. 0)\<rparr>" "''t''"
      "(Logger_file False SUCCESS ''/root/inaccessible.log'' INFO)
           \<lparr>last_error_m := CONFIG_PARSE_ERROR, last_error_message_m := ''old''\<rparr>"
      "''This should not crash''" INFO LoggerConfig_default]
  by (simp add: Logger_log_def levelInt_def Logger_file_def FileOutput_new_def
      FileOutput_isValid_def getLastError_def getLastErrorMessage_def)

text \<open>
  C7 as stated fails: on a logger whose file did not open and whose slot holds
  \<^verbatim>\<open>SUCCESS\<close> and the empty message, \<^verbatim>\<open>log\<close> fails and the slot still holds \<^verbatim>\<open>SUCCESS\<close>
  and the empty message.
\<close>

theorem failed_log_keeps_success_counterexample:
  "\<not> fst (Logger_log (\<lambda>_. 0) \<lparr>wr_ok = True, sendres = (\<lambda>_. 0)\<rparr> ''t''
        (Logger_file False SUCCESS ''/root/inaccessible.log'' INFO) ''This should not crash'' INFO)
   \<and> getLastError (snd (Logger_log (\<lambda>_. 0) \<lparr>wr_ok = True, sendres = (\<lambda>_. 0)\<rparr> ''t''
        (Logger_file False SUCCESS ''/root/inaccessible.log'' INFO) ''This should not crash'' INFO))
       = SUCCESS
   \<and> getLastErrorMessage (snd (Logger_log (\<lambda>_. 0) \<lparr>wr_ok = True, sendres = (\<lambda>_. 0)\<rparr> ''t''
        (Logger_file False SUCCESS ''/root/inaccessible.log'' INFO) ''This should not crash'' INFO))
       = []"
  by (simp add: Logger_log_def levelInt_def Logger_file_def FileOutput_new_def
      FileOutput_isValid_def getLastError_def getLastErrorMessage_def)

section \<open>Properties of the rotation threshold\<close>

lemma unat_megabytes:
  "unat (M :: 64 word) < 2 ^ 44 \<Longrightarrow> unat (M * 1024 * 1024) = unat M * 1024 * 1024"
  by (simp add: unat_word_ariths)

text \<open>
  C8. For a rotator constructed with \<^verbatim>\<open>max_size_mb = M\<close>, \<^verbatim>\<open>shouldRotate(currentSize)\<close>
  is true iff \<^verbatim>\<open>currentSize >= M * 1024 * 1024\<close>, the product being the \<^verbatim>\<open>size_t\<close>
  product the constructor stores; for \<open>M\<close> below \<open>2 ^ 44\<close> the product does not wrap
  and the comparison is that of the natural numbers.
\<close>

theorem shouldRotate_threshold:
  "shouldRotate (LogRotator_new base M files compress) currentSize = (M * 1024 * 1024 \<le> currentSize)
   \<and> (unat M < 2 ^ 44 \<longrightarrow>
        shouldRotate (LogRotator_new base M files compress) currentSize
          = (unat M * 1024 * 1024 \<le> unat currentSize))"
proof (intro conjI impI)
  show "shouldRotate (LogRotator_new base M files compress) currentSize
          = (M * 1024 * 1024 \<le> currentSize)"
    by (simp add: shouldRotate_def LogRotator_new_def)
next
  assume "unat M < 2 ^ 44"
  then have "unat (M * 1024 * 1024) = unat M * 1024 * 1024"
    by (rule unat_megabytes)
  then show "shouldRotate (LogRotator_new base M files compress) currentSize
          = (unat M * 1024 * 1024 \<le> unat currentSize)"
    by (simp add: shouldRotate_def LogRotator_new_def word_le_nat_alt)
qed

text \<open>One megabyte: 1048576 bytes rotate, 1048575 do not.\<close>

theorem shouldRotate_threshold_witness:
  "unat (1 :: 64 word) < 2 ^ 44
   \<and> shouldRotate (LogRotator_new ''app.log'' 1 3 False) 1048576
   \<and> \<not> shouldRotate (LogRotator_new ''app.log'' 1 3 False) 1048575"
  using shouldRotate_threshold [of "''app.log''" 1 3 False 1048576]
    shouldRotate_threshold [of "''app.log''" 1 3 False 1048575]
  by simp

section \<open>Properties of the statistics collector\<close>

text \<open>
  The positions the parser computes are inside the string: the start of each \<^verbatim>\<open>substr\<close>
  is at most the length, and the closing bracket lies after the opening one, so the
  length \<^verbatim>\<open>fourthBracket - thirdBracket - 1\<close> does not wrap.
\<close>

lemma first_index_Some:
  "first_index P xs = Some i \<Longrightarrow> i < length xs \<and> P (xs ! i)"
proof (induction xs arbitrary: i)
  case Nil
  then show ?case by simp
next
  case (Cons x xs)
  then show ?case by (cases "P x") auto
qed

lemma str_find_Some:
  assumes "str_find s ch pos = Some i"
  shows "pos \<le> i \<and> i < length s \<and> s ! i = ch"
proof -
  from assms obtain k where k: "first_index (\<lambda>c. c = ch) (drop pos s) = Some k" and i: "i = pos + k"
    by (auto simp: str_find_def)
  from first_index_Some [OF k] have "k < length s - pos" "drop pos s ! k = ch" by simp_all
  then show ?thesis using i by simp
qed

lemma find_first_not_of_Some:
  assumes "find_first_not_of s chars pos = Some i"
  shows "pos \<le> i \<and> i < length s"
proof -
  from assms obtain k where k: "first_index (\<lambda>c. c \<notin> set chars) (drop pos s) = Some k"
    and i: "i = pos + k"
    by (auto simp: find_first_not_of_def)
  from first_index_Some [OF k] have "k < length s - pos" by simp
  then show ?thesis using i by simp
qed

lemma bracket_positions:
  assumes "str_find s (CHR ''['') b = Some c" and "str_find s (CHR '']'') c = Some d"
  shows "c + 1 \<le> length s \<and> c < d \<and> d + 1 \<le> length s"
proof -
  from str_find_Some [OF assms(1)] have c: "c < length s" "s ! c = CHR ''[''" by simp_all
  from str_find_Some [OF assms(2)] have d: "c \<le> d" "d < length s" "s ! d = CHR '']''" by simp_all
  from c(2) d(3) have "c \<noteq> d" by auto
  then show ?thesis using c d by simp
qed

lemma parse_line1: "parseLogMessage ''[2024-01-01 00:00:00.000] [INFO] hi'' = Some (''hi'', INFO)"
  by code_simp

lemma parse_line2: "parseLogMessage ''[2024-01-01 00:00:00.001] [WARNING] bye'' = Some (''bye'', WARNING)"
  by code_simp

lemma parse_line3: "parseLogMessage ''[2024-01-01 00:00:00.002] [INFO] ok'' = Some (''ok'', INFO)"
  by code_simp

lemma handle_line1:
  "handleLine st (t, ''[2024-01-01 00:00:00.000] [INFO] hi'') = addMessage t st ''hi'' INFO"
  by (simp add: handleLine_def parse_line1)

lemma handle_line2:
  "handleLine st (t, ''[2024-01-01 00:00:00.001] [WARNING] bye'') = addMessage t st ''bye'' WARNING"
  by (simp add: handleLine_def parse_line2)

lemma handle_line3:
  "handleLine st (t, ''[2024-01-01 00:00:00.002] [INFO] ok'') = addMessage t st ''ok'' INFO"
  by (simp add: handleLine_def parse_line3)

lemma three_lines:
  "handleLines LogStatistics_new
     [(t1, ''[2024-01-01 00:00:00.000] [INFO] hi''),
      (t2, ''[2024-01-01 00:00:00.001] [WARNING] bye''),
      (t3, ''[2024-01-01 00:00:00.002] [INFO] ok'')]
   = addMessage t3 (addMessage t2 (addMessage t1 LogStatistics_new ''hi'' INFO) ''bye'' WARNING) ''ok'' INFO"
  by (simp only: handleLines_def foldl.simps handle_line1 handle_line2 handle_line3)

lemma addMessage_counters:
  "totalMessages (addMessage t st m l) = totalMessages st + 1"
  "messagesByLevel (addMessage t st m l) l' =
     (if l' = l then Some ((case messagesByLevel st l of None \<Rightarrow> 0 | Some n \<Rightarrow> n) + 1)
      else messagesByLevel st l')"
  "minLength (addMessage t st m l) = min (minLength st) (length m)"
  "maxLength (addMessage t st m l) = max (maxLength st) (length m)"
  "totalLength (addMessage t st m l) = totalLength st + length m"
  by (simp_all add: addMessage_def Let_def)

text \<open>
  C9. Starting from fresh statistics, after the collector has handled the three lines
  (at any times \<open>t1\<close>, \<open>t2\<close>, \<open>t3\<close>) \<^verbatim>\<open>totalMessages\<close> is 3, the count of \<^verbatim>\<open>INFO\<close>
  is 2, the count of \<^verbatim>\<open>WARNING\<close> is 1, \<^verbatim>\<open>minLength\<close> is 2 and \<^verbatim>\<open>maxLength\<close> is 3.
\<close>

theorem stats_three_lines:
  "totalMessages (handleLines LogStatistics_new
     [(t1, ''[2024-01-01 00:00:00.000] [INFO] hi''),
      (t2, ''[2024-01-01 00:00:00.001] [WARNING] bye''),
      (t3, ''[2024-01-01 00:00:00.002] [INFO] ok'')]) = 3
   \<and> messagesByLevel (handleLines LogStatistics_new
     [(t1, ''[2024-01-01 00:00:00.000] [INFO] hi''),
      (t2, ''[2024-01-01 00:00:00.001] [WARNING] bye''),
      (t3, ''[2024-01-01 00:00:00.002] [INFO] ok'')]) INFO = Some 2
   \<and> messagesByLevel (handleLines LogStatistics_new
     [(t1, ''[2024-01-01 00:00:00.000] [INFO] hi''),
      (t2, ''[2024-01-01 00:00:00.001] [WARNING] bye''),
      (t3, ''[2024-01-01 00:00:00.002] [INFO] ok'')]) WARNING = Some 1
   \<and> minLength (handleLines LogStatistics_new
     [(t1, ''[2024-01-01 00:00:00.000] [INFO] hi''),
      (t2, ''[2024-01-01 00:00:00.001] [WARNING] bye''),
      (t3, ''[2024-01-01 00:00:00.002] [INFO] ok'')]) = 2
   \<and> maxLength (handleLines LogStatistics_new
     [(t1, ''[2024-01-01 00:00:00.000] [INFO] hi''),
      (t2, ''[2024-01-01 00:00:00.001] [WARNING] bye''),
      (t3, ''[2024-01-01 00:00:00.002] [INFO] ok'')]) = 3"
  unfolding three_lines
  by (simp add: addMessage_counters LogStatistics_new_def SIZE_MAX_def)

text \<open>The same with the three lines arriving one millisecond apart.\<close>

theorem stats_three_lines_witness:
  "totalMessages (handleLines LogStatistics_new
     [(0, ''[2024-01-01 00:00:00.000] [INFO] hi''),
      (1000000, ''[2024-01-01 00:00:00.001] [WARNING] bye''),
      (2000000, ''[2024-01-01 00:00:00.002] [INFO] ok'')]) = 3
   \<and> messagesByLevel (handleLines LogStatistics_new
     [(0, ''[2024-01-01 00:00:00.000] [INFO] hi''),
      (1000000, ''[2024-01-01 00:00:00.001] [WARNING] bye''),
      (2000000, ''[2024-01-01 00:00:00.002] [INFO] ok'')]) INFO = Some 2
   \<and> messagesByLevel (handleLines LogStatistics_new
     [(0, ''[2024-01-01 00:00:00.000] [INFO] hi''),
      (1000000, ''[2024-01-01 00:00:00.001] [WARNING] bye''),
      (2000000, ''[2024-01-01 00:00:00.002] [INFO] ok'')]) WARNING = Some 1
   \<and> minLength (handleLines LogStatistics_new
     [(0, ''[2024-01-01 00:00:00.000] [INFO] hi''),
      (1000000, ''[2024-01-01 00:00:00.001] [WARNING] bye''),
      (2000000, ''[2024-01-01 00:00:00.002] [INFO] ok'')]) = 2
   \<and> maxLength (handleLines LogStatistics_new
     [(0, ''[2024-01-01 00:00:00.000] [INFO] hi''),
      (1000000, ''[2024-01-01 00:00:00.001] [WARNING] bye''),
      (2000000, ''[2024-01-01 00:00:00.002] [INFO] ok'')]) = 3"
  by (rule stats_three_lines [of 0 1000000 2000000])


end
